theory Spec2Isabelle
  imports Main "HOL-Library.AList" "HOL-Library.Char_ord" "HOL-Library.List_Lexorder"
begin

section \<open>The workload document\<close>

text \<open>
  The store of \<^verbatim>\<open>pkg/api/store/workload/workload_store.go\<close> rewrites an untyped
  document, a Go \<^verbatim>\<open>map[string]interface{}\<close>. An \<^verbatim>\<open>interface{}\<close> value of such a
  document is one of: \<^verbatim>\<open>nil\<close>, a bool, a number, a string, a \<^verbatim>\<open>[]interface{}\<close>, a nested
  \<^verbatim>\<open>map[string]interface{}\<close>, or the typed slice \<^verbatim>\<open>[]corev1.LocalObjectReference\<close> that
  \<^verbatim>\<open>setSecrets\<close> stores itself.

  \<^item> A number is an \<^verbatim>\<open>int64\<close> (or a \<^verbatim>\<open>json.Number\<close> holding an integer in that range). The
    code does no arithmetic on it, so it is an \<open>int\<close>; floating-point numbers are left out.
  \<^item> A map is an association list read with \<open>map_of\<close> and written with \<open>AList.update\<close>;
    a Go map has each key once.
  \<^item> A string is a list of bytes; the functions on letters (\<^verbatim>\<open>strings.ToLower\<close>,
    \<^verbatim>\<open>strings.EqualFold\<close>) are modelled on ASCII.
  \<^item> The document is a tree: no map or slice is reachable by two paths. The code writes
    into the maps it reaches from the document; on a tree this is the same as rebuilding
    the document around the changed map, which is how the model returns it.
\<close>

datatype LocalObjectReference = LocalObjectReference string

datatype jvalue =
    JNull
  | JBool bool
  | JNum int
  | JStr string
  | JArr "jvalue list"
  | JObj "(string \<times> jvalue) list"
  | JSecrets "LocalObjectReference list"

type_synonym document = "(string \<times> jvalue) list"

text \<open>\<^verbatim>\<open>data[key]\<close>: the value under the key, \<^verbatim>\<open>nil\<close> when the key is absent.\<close>

definition mapIndex :: "document \<Rightarrow> string \<Rightarrow> jvalue" where
  "mapIndex data key = (case map_of data key of None \<Rightarrow> JNull | Some v \<Rightarrow> v)"

text \<open>A run-time panic of Go ends the call; the two that the code can raise are named.\<close>

datatype panic = IndexOutOfRange | NilMapAssignment

datatype 'a go = Panic panic | Ret 'a

text \<open>
  A Go \<^verbatim>\<open>error\<close>: the \<^verbatim>\<open>*httperror.APIError\<close> built by \<^verbatim>\<open>httperror.NewAPIError\<close>
  from an error code and a message, or any other error of a collaborator.
\<close>

datatype ErrorCode = ErrorCode string int

definition InvalidOption :: ErrorCode where
  "InvalidOption = ErrorCode ''InvalidOption'' 422"

datatype error = APIError ErrorCode string | OtherError string

definition NewAPIError :: "ErrorCode \<Rightarrow> string \<Rightarrow> error" where
  "NewAPIError code message = APIError code message"

section \<open>Library functions the store calls\<close>

subsection \<open>\<^verbatim>\<open>strings\<close> and \<^verbatim>\<open>strconv\<close>\<close>

definition upperLetters :: string where
  "upperLetters = ''ABCDEFGHIJKLMNOPQRSTUVWXYZ''"

definition lowerLetters :: string where
  "lowerLetters = ''abcdefghijklmnopqrstuvwxyz''"

definition toLowerChar :: "char \<Rightarrow> char" where
  "toLowerChar c = (case map_of (zip upperLetters lowerLetters) c of None \<Rightarrow> c | Some l \<Rightarrow> l)"

definition ToLower :: "string \<Rightarrow> string" where
  "ToLower s = map toLowerChar s"

definition EqualFold :: "string \<Rightarrow> string \<Rightarrow> bool" where
  "EqualFold s t = (map toLowerChar s = map toLowerChar t)"

definition HasPrefix :: "string \<Rightarrow> string \<Rightarrow> bool" where
  "HasPrefix s pre = (length pre \<le> length s \<and> take (length pre) s = pre)"

text \<open>\<^verbatim>\<open>strings.Count(s, ":")\<close> for a separator of one byte.\<close>

definition Count :: "string \<Rightarrow> char \<Rightarrow> nat" where
  "Count s sep = length (filter (\<lambda>c. c = sep) s)"

text \<open>
  \<^verbatim>\<open>strings.Split(s, ":")\<close> for a separator of one byte: the segments between the
  separators, one more than there are separators; never empty.
\<close>

fun Split :: "string \<Rightarrow> char \<Rightarrow> string list" where
  "Split [] sep = [[]]"
| "Split (c # s) sep =
     (if c = sep then [] # Split s sep
      else (case Split s sep of [] \<Rightarrow> [[c]] | seg # segs \<Rightarrow> (c # seg) # segs))"

fun digitsOf :: "nat \<Rightarrow> string" where
  "digitsOf n =
     (if n < 10 then [''0123456789'' ! n]
      else digitsOf (n div 10) @ [''0123456789'' ! (n mod 10)])"

declare digitsOf.simps [simp del]

text \<open>\<^verbatim>\<open>strconv.Itoa\<close>: the decimal rendering, with a minus sign below zero.\<close>

definition Itoa :: "int \<Rightarrow> string" where
  "Itoa i = (if i < 0 then CHR ''-'' # digitsOf (nat (- i)) else digitsOf (nat i))"

definition isDigit :: "char \<Rightarrow> bool" where
  "isDigit c = (c \<in> set ''0123456789'')"

definition digitVal :: "char \<Rightarrow> nat" where
  "digitVal c = (case map_of (zip ''0123456789'' [0 ..< 10]) c of None \<Rightarrow> 0 | Some d \<Rightarrow> d)"

definition digitsVal :: "string \<Rightarrow> nat" where
  "digitsVal ds = foldl (\<lambda>n c. n * 10 + digitVal c) 0 ds"

text \<open>
  \<^verbatim>\<open>strconv.ParseInt(s, 10, 64)\<close>: an optional sign and decimal digits. A syntax error
  gives the value 0, a value outside \<^verbatim>\<open>int64\<close> gives the nearest bound; both come with an
  error. The model returns the value and whether there was an error.
\<close>

definition ParseInt :: "string \<Rightarrow> int \<times> bool" where
  "ParseInt s =
     (let neg = (s \<noteq> [] \<and> hd s = CHR ''-'');
          ds = (if s \<noteq> [] \<and> (hd s = CHR ''+'' \<or> hd s = CHR ''-'') then tl s else s)
      in if ds = [] \<or> \<not> list_all isDigit ds then (0, True)
         else let un = digitsVal ds
              in if \<not> neg \<and> un \<ge> 2 ^ 63 then (2 ^ 63 - 1, True)
                 else if neg \<and> un > 2 ^ 63 then (- (2 ^ 63), True)
                 else (if neg then - int un else int un, False))"

subsection \<open>\<^verbatim>\<open>fmt\<close>\<close>

fun joinWith :: "string \<Rightarrow> string list \<Rightarrow> string" where
  "joinWith sep [] = []"
| "joinWith sep [x] = x"
| "joinWith sep (x # y # ys) = x @ sep @ joinWith sep (y # ys)"

definition fmtSecret :: "LocalObjectReference \<Rightarrow> string" where
  "fmtSecret r = (case r of LocalObjectReference n \<Rightarrow> ''{'' @ n @ ''}'')"

text \<open>
  The verb \<^verbatim>\<open>%v\<close> of \<^verbatim>\<open>fmt.Sprintf\<close>, which is also what \<^verbatim>\<open>fmt.Sprint\<close> prints for one
  operand: \<^verbatim>\<open><nil>\<close>, \<^verbatim>\<open>true\<close>, a decimal number, the string itself, \<^verbatim>\<open>[a b]\<close> for a
  slice, \<^verbatim>\<open>map[k:v k:v]\<close> with the keys in increasing order for a map.
\<close>

primrec fmtV :: "jvalue \<Rightarrow> string" where
  "fmtV JNull = ''<nil>''"
| "fmtV (JBool b) = (if b then ''true'' else ''false'')"
| "fmtV (JNum n) = Itoa n"
| "fmtV (JStr s) = s"
| "fmtV (JArr xs) = ''['' @ joinWith '' '' (map fmtV xs) @ '']''"
| "fmtV (JObj kvs) =
     ''map['' @ joinWith '' '' (map (\<lambda>(k, v). k @ '':'' @ v)
                                  (sort_key fst (map (map_prod id fmtV) kvs))) @ '']''"
| "fmtV (JSecrets rs) = ''['' @ joinWith '' '' (map fmtSecret rs) @ '']''"

subsection \<open>\<^verbatim>\<open>norman/types/convert\<close>\<close>

text \<open>\<^verbatim>\<open>convert.Singular\<close>: the first element of a slice, \<^verbatim>\<open>nil\<close> for an empty one.\<close>

definition Singular :: "jvalue \<Rightarrow> jvalue" where
  "Singular v = (case v of JArr [] \<Rightarrow> JNull | JArr (x # xs) \<Rightarrow> x | _ \<Rightarrow> v)"

text \<open>\<^verbatim>\<open>convert.ToString\<close>: the empty string for \<^verbatim>\<open>nil\<close>, else \<^verbatim>\<open>fmt.Sprint\<close>.\<close>

definition ToString :: "jvalue \<Rightarrow> string" where
  "ToString v = (case Singular v of JNull \<Rightarrow> [] | single \<Rightarrow> fmtV single)"

text \<open>
  \<^verbatim>\<open>convert.ToNumber\<close>: a number as it is, anything else through its string and
  \<^verbatim>\<open>strconv.ParseInt\<close>.
\<close>

definition ToNumber :: "jvalue \<Rightarrow> int \<times> bool" where
  "ToNumber v = (case Singular v of JNum i \<Rightarrow> (i, False) | single \<Rightarrow> ParseInt (ToString single))"

text \<open>
  \<^verbatim>\<open>convert.IsEmpty\<close>: \<^verbatim>\<open>nil\<close>, the empty string, \<^verbatim>\<open>false\<close>, an empty map and an empty
  slice are empty. (Its test \<^verbatim>\<open>v == 0\<close> is against an \<^verbatim>\<open>int\<close>, which an \<^verbatim>\<open>int64\<close> or a
  \<^verbatim>\<open>json.Number\<close> never equals.)
\<close>

definition IsEmpty :: "jvalue \<Rightarrow> bool" where
  "IsEmpty v = (v = JNull \<or> v = JStr [] \<or> v = JBool False \<or> v = JObj [] \<or> v = JArr [])"

definition ToInterfaceSlice :: "jvalue \<Rightarrow> jvalue list" where
  "ToInterfaceSlice v = (case v of JArr xs \<Rightarrow> xs | _ \<Rightarrow> [])"

text \<open>\<^verbatim>\<open>convert.ToMapInterface\<close>: the map, or the \<^verbatim>\<open>nil\<close> map (\<open>None\<close>).\<close>

definition ToMapInterface :: "jvalue \<Rightarrow> document option" where
  "ToMapInterface v = (case v of JObj m \<Rightarrow> Some m | _ \<Rightarrow> None)"

fun isObj :: "jvalue \<Rightarrow> bool" where
  "isObj (JObj m) = True"
| "isObj _ = False"

fun fieldsOf :: "jvalue \<Rightarrow> document" where
  "fieldsOf (JObj m) = m"
| "fieldsOf _ = []"

text \<open>
  \<^verbatim>\<open>convert.ToMapSlice\<close>: the maps of a slice; the \<^verbatim>\<open>nil\<close> slice when one element is
  no map.
\<close>

definition ToMapSlice :: "jvalue \<Rightarrow> document list" where
  "ToMapSlice v = (case v of JArr vs \<Rightarrow> (if list_all isObj vs then map fieldsOf vs else []) | _ \<Rightarrow> [])"

text \<open>
  \<^verbatim>\<open>convert.EncodeToMap\<close> returns a map as it is: the caller then writes into the map of the
  document. Any other value goes through \<^verbatim>\<open>json.Marshal\<close> and a decoder into a fresh map:
  a bool, number, string or slice is a decoding error; \<^verbatim>\<open>nil\<close> is marshalled to \<^verbatim>\<open>null\<close>,
  which decodes without an error and sets the map to the \<^verbatim>\<open>nil\<close> map. A \<^verbatim>\<open>nil\<close> map reads
  as an empty one; writing into it panics.
\<close>

datatype encoded = EncError | EncNil | EncMap document

definition EncodeToMap :: "jvalue \<Rightarrow> encoded" where
  "EncodeToMap v = (case v of JObj m \<Rightarrow> EncMap m | JNull \<Rightarrow> EncNil | _ \<Rightarrow> EncError)"

subsection \<open>\<^verbatim>\<open>norman/types/values\<close>\<close>

text \<open>
  \<^verbatim>\<open>values.GetValue\<close> walks the keys through nested maps; a value on the way that is no
  map reads as the \<^verbatim>\<open>nil\<close> map. \<open>None\<close> is the result \<^verbatim>\<open>(nil, false)\<close>.
\<close>

fun GetValue :: "document \<Rightarrow> string list \<Rightarrow> jvalue option" where
  "GetValue data [] = None"
| "GetValue data [key] = map_of data key"
| "GetValue data (key # keys) = GetValue (fieldsOf (mapIndex data key)) keys"

definition GetValueN :: "document \<Rightarrow> string list \<Rightarrow> jvalue" where
  "GetValueN data keys = (case GetValue data keys of None \<Rightarrow> JNull | Some val \<Rightarrow> val)"

definition GetSlice :: "document \<Rightarrow> string list \<Rightarrow> document list" where
  "GetSlice data keys = (case GetValue data keys of None \<Rightarrow> [] | Some val \<Rightarrow> ToMapSlice val)"

text \<open>
  \<^verbatim>\<open>values.PutValue\<close> creates the maps that are missing on the way and gives up at a
  value that is no map.
\<close>

fun PutValue :: "document \<Rightarrow> jvalue \<Rightarrow> string list \<Rightarrow> document" where
  "PutValue data val [] = data"
| "PutValue data val [key] = AList.update key val data"
| "PutValue data val (key # keys) =
     (case map_of data key of
        None \<Rightarrow> AList.update key (JObj (PutValue [] val keys)) data
      | Some (JObj newMap) \<Rightarrow> AList.update key (JObj (PutValue newMap val keys)) data
      | Some _ \<Rightarrow> data)"

fun RemoveValue :: "document \<Rightarrow> string list \<Rightarrow> document" where
  "RemoveValue data [] = data"
| "RemoveValue data [key] = AList.delete key data"
| "RemoveValue data (key # keys) =
     (case map_of data key of
        Some (JObj m) \<Rightarrow> AList.update key (JObj (RemoveValue m keys)) data
      | _ \<Rightarrow> data)"

section \<open>The port namer\<close>

text \<open>
  \<^verbatim>\<open>generateDNSName\<close> (lines 247 to 256): whether \<^verbatim>\<open>setPorts\<close> writes a new
  \<^verbatim>\<open>dnsName\<close>.
\<close>

definition generateDNSName :: "string \<Rightarrow> string \<Rightarrow> bool" where
  "generateDNSName workloadName dnsName =
     (if dnsName = [] then True
      else if EqualFold dnsName workloadName \<or> HasPrefix dnsName (workloadName @ ''-'') then True
      else False)"

text \<open>The \<^verbatim>\<open>switch\<close> on the kind (lines 206 to 214).\<close>

definition numKind :: "document \<Rightarrow> int" where
  "numKind port =
     (let kind = ToString (mapIndex port ''kind'')
      in if kind = ''NodePort'' then 1
         else if kind = ''ClusterIP'' then 2
         else if kind = ''LoadBalancer'' then 3
         else 0)"

text \<open>
  The name of a port (lines 198 to 222). The error of \<^verbatim>\<open>convert.ToNumber\<close> is logged
  and its value is used.
\<close>

definition portNameOf :: "document \<Rightarrow> string" where
  "portNameOf port =
     (if IsEmpty (mapIndex port ''name'') then
        (let containerPort = fst (ToNumber (mapIndex port ''containerPort''))
         in Itoa containerPort
              @ ToLower (ToString (mapIndex port ''protocol''))
              @ ToLower (ToString (mapIndex port ''sourcePort''))
              @ ToLower (ToString (JNum (numKind port))))
      else ToString (mapIndex port ''name''))"

text \<open>The error for a name that is already used (lines 226 and 227).\<close>

definition duplicatedPort :: "document \<Rightarrow> error" where
  "duplicatedPort port =
     NewAPIError InvalidOption
       (''Duplicated port kind='' @ fmtV (mapIndex port ''kind'')
          @ '', conainerPort='' @ fmtV (mapIndex port ''containerPort'')
          @ '', protcol='' @ fmtV (mapIndex port ''protocol''))"

text \<open>The \<^verbatim>\<open>dnsName\<close> of a port (lines 232 to 240).\<close>

definition setDNSName :: "string \<Rightarrow> document \<Rightarrow> document" where
  "setDNSName workloadName port =
     (if generateDNSName workloadName (ToString (mapIndex port ''dnsName'')) then
        (if mapIndex port ''kind'' = JStr ''ClusterIP''
         then AList.update ''dnsName'' (JStr (ToLower (ToString (JStr workloadName)))) port
         else AList.update ''dnsName''
                (JStr (ToLower (ToString (JStr workloadName)) @ ''-''
                         @ ToLower (ToString (mapIndex port ''kind'')))) port)
      else port)"

text \<open>
  What the loop body writes into a port that passed the check of its name (lines 230
  to 240).
\<close>

definition writePort :: "string \<Rightarrow> document \<Rightarrow> document" where
  "writePort workloadName port =
     setDNSName workloadName (AList.update ''name'' (JStr (portNameOf port)) port)"

text \<open>
  The rest of a loop runs after the current element; \<open>keep\<close> puts the element, as the
  body left it, in front of what the rest of the loop returns.
\<close>

definition keep :: "jvalue \<Rightarrow> (jvalue list \<times> error option) go \<Rightarrow> (jvalue list \<times> error option) go" where
  "keep x r = (case r of Panic pn \<Rightarrow> Panic pn | Ret (xs, err) \<Rightarrow> Ret (x # xs, err))"

text \<open>
  The loop over the ports of one container (lines 192 to 241), from the names used so
  far. It returns the ports as the loop left them and the error, if any. An element that
  is no map is skipped, except \<^verbatim>\<open>nil\<close>: its map is the \<^verbatim>\<open>nil\<close> map, which has no
  name, and the write of line 230 panics.
\<close>

fun portsLoop :: "string \<Rightarrow> (string \<rightharpoonup> bool) \<Rightarrow> jvalue list \<Rightarrow> (jvalue list \<times> error option) go" where
  "portsLoop workloadName usedNames [] = Ret ([], None)"
| "portsLoop workloadName usedNames (p # ps) =
     (case EncodeToMap p of
        EncError \<Rightarrow> keep p (portsLoop workloadName usedNames ps)
      | EncNil \<Rightarrow>
          (if usedNames (portNameOf []) \<noteq> None then Ret (p # ps, Some (duplicatedPort []))
           else Panic NilMapAssignment)
      | EncMap port \<Rightarrow>
          (if usedNames (portNameOf port) \<noteq> None then Ret (p # ps, Some (duplicatedPort port))
           else keep (JObj (writePort workloadName port))
                  (portsLoop workloadName (usedNames(portNameOf port \<mapsto> True)) ps)))"

text \<open>
  The loop over the containers (lines 181 to 243). The names used start empty for
  each container.
\<close>

fun containersLoop :: "string \<Rightarrow> jvalue list \<Rightarrow> (jvalue list \<times> error option) go" where
  "containersLoop workloadName [] = Ret ([], None)"
| "containersLoop workloadName (c # cs) =
     (case EncodeToMap c of
        EncError \<Rightarrow> keep c (containersLoop workloadName cs)
      | EncNil \<Rightarrow> keep c (containersLoop workloadName cs)
      | EncMap cMap \<Rightarrow>
          (case GetValue cMap [''ports''] of
             None \<Rightarrow> keep c (containersLoop workloadName cs)
           | Some v \<Rightarrow>
               (case portsLoop workloadName Map.empty (ToInterfaceSlice v) of
                  Panic pn \<Rightarrow> Panic pn
                | Ret (ports, err) \<Rightarrow>
                    (let c' = (case v of JArr _ \<Rightarrow> JObj (AList.update ''ports'' (JArr ports) cMap)
                                       | _ \<Rightarrow> c)
                     in if err \<noteq> None then Ret (c' # cs, err)
                        else keep c' (containersLoop workloadName cs)))))"

text \<open>
  \<^verbatim>\<open>setPorts\<close> (lines 175 to 245) returns the document as the call left it and the
  error, if any.
\<close>

definition setPorts :: "string \<Rightarrow> document \<Rightarrow> (document \<times> error option) go" where
  "setPorts workloadName data =
     (case GetValue data [''containers''] of
        None \<Rightarrow> Ret (data, None)
      | Some containers \<Rightarrow>
          (case containersLoop workloadName (ToInterfaceSlice containers) of
             Panic pn \<Rightarrow> Panic pn
           | Ret (cs, err) \<Rightarrow>
               Ret ((case containers of JArr _ \<Rightarrow> AList.update ''containers'' (JArr cs) data
                                      | _ \<Rightarrow> data), err)))"

section \<open>The collaborators\<close>

text \<open>
  What the store reads and calls outside this file is a parameter of the model: the
  helpers of the package that live in other files (\<^verbatim>\<open>resolveWorkloadID\<close>,
  \<^verbatim>\<open>SelectorLabel\<close>, \<^verbatim>\<open>store\<close>, \<^verbatim>\<open>getKey\<close>), the lookups of \<^verbatim>\<open>access.List\<close> and
  \<^verbatim>\<open>access.ByID\<close>, the parser of image references, \<^verbatim>\<open>encoding/json\<close> on the state
  map, and the wrapped \<^verbatim>\<open>types.Store\<close>, which acts on a storage state \<open>'s\<close>.
\<close>

typedecl RegistryCredential

record DockerCredential =
  Registries :: "(string \<times> RegistryCredential) list"
  Name :: string

record NamespacedDockerCredential = DockerCredential +
  NamespaceId :: string

record Node =
  NodeName :: string

type_synonym domainToCreds = "string \<rightharpoonup> LocalObjectReference list"

record 's env =
  resolveWorkloadID :: "string \<Rightarrow> document \<Rightarrow> string"
  SelectorLabel :: string
  store :: "(string \<times> RegistryCredential) list \<Rightarrow> domainToCreds \<Rightarrow> string \<Rightarrow> domainToCreds"
  getKey :: "string \<Rightarrow> string"
  listNamespacedDockerCredential :: "error + NamespacedDockerCredential list"
  listDockerCredential :: "error + DockerCredential list"
  nodeByID :: "string \<Rightarrow> error + Node"
  parseNormalizedNamedDomain :: "string \<Rightarrow> error + string"
  jsonMarshal :: "(string \<times> string) list \<Rightarrow> error + string"
  jsonUnmarshal :: "string \<Rightarrow> (string \<times> string) list option"
  storeCreate :: "string \<Rightarrow> document \<Rightarrow> 's \<Rightarrow> (error + document) \<times> 's"
  storeUpdate :: "string \<Rightarrow> document \<Rightarrow> string \<Rightarrow> 's \<Rightarrow> (error + document) \<times> 's"
  storeByID :: "string \<Rightarrow> string \<Rightarrow> 's \<Rightarrow> (error + document) \<times> 's"

text \<open>
  \<open>jsonUnmarshal\<close> is \<^verbatim>\<open>json.Unmarshal\<close> into the empty state map of \<^verbatim>\<open>getState\<close>;
  its error is dropped by the caller. The result \<open>None\<close> is the \<^verbatim>\<open>nil\<close> map, which the
  text \<^verbatim>\<open>null\<close> leaves behind.
\<close>

section \<open>The other passes\<close>

text \<open>\<^verbatim>\<open>setStrategy\<close> (lines 104 to 110).\<close>

definition setStrategy :: "document \<Rightarrow> document" where
  "setStrategy data =
     (case GetValue data [''deploymentConfig'', ''strategy''] of
        None \<Rightarrow> data
      | Some strategy \<Rightarrow>
          (if ToString strategy = ''Recreate''
           then RemoveValue (RemoveValue data [''deploymentConfig'', ''maxSurge''])
                  [''deploymentConfig'', ''maxUnavailable'']
           else data))"

text \<open>\<^verbatim>\<open>setSelector\<close> (lines 112 to 143).\<close>

definition setSelector :: "'s env \<Rightarrow> string \<Rightarrow> document \<Rightarrow> document" where
  "setSelector env schemaID data =
     (let isJob = (EqualFold schemaID ''job'' \<or> EqualFold schemaID ''cronJob'')
      in if IsEmpty (mapIndex data ''selector'') \<and> \<not> isJob then
           (let workloadID = resolveWorkloadID env schemaID data;
                data1 = AList.update ''selector''
                          (JObj [(''matchLabels'', JObj [(SelectorLabel env, JStr workloadID)])]) data;
                workloadLabels = (case ToMapInterface (mapIndex data1 ''workloadLabels'') of
                                    None \<Rightarrow> [] | Some m \<Rightarrow> m);
                data2 = AList.update ''workloadLabels''
                          (JObj (AList.update (SelectorLabel env) (JStr workloadID) workloadLabels)) data1;
                labels = (case ToMapInterface (mapIndex data2 ''labels'') of
                            None \<Rightarrow> [] | Some m \<Rightarrow> m)
            in AList.update ''labels''
                 (JObj (AList.update (SelectorLabel env) (JStr workloadID) labels)) data2)
         else data)"

text \<open>\<^verbatim>\<open>setWorkloadSpecificDefaults\<close> (lines 166 to 173).\<close>

definition setWorkloadSpecificDefaults :: "string \<Rightarrow> document \<Rightarrow> document" where
  "setWorkloadSpecificDefaults schemaID data =
     (if EqualFold schemaID ''job'' \<or> EqualFold schemaID ''cronJob'' then
        (if map_of data ''restartPolicy'' = None
         then AList.update ''restartPolicy'' (JStr ''OnFailure'') data
         else data)
      else data)"

text \<open>\<^verbatim>\<open>getCreds\<close> (lines 258 to 275); a failed listing contributes nothing.\<close>

definition getCreds :: "'s env \<Rightarrow> string \<Rightarrow> domainToCreds" where
  "getCreds env namespaceID =
     (let domainToCreds1 =
            (case listNamespacedDockerCredential env of
               Inl err \<Rightarrow> Map.empty
             | Inr namespacedCreds \<Rightarrow>
                 fold (\<lambda>cred d. if NamespaceId cred = namespaceID
                                 then store env (Registries cred) d (Name cred) else d)
                   namespacedCreds Map.empty)
      in (case listDockerCredential env of
            Inl err \<Rightarrow> domainToCreds1
          | Inr creds \<Rightarrow>
              fold (\<lambda>cred d. store env (Registries cred) d (Name cred)) creds domainToCreds1))"

text \<open>\<^verbatim>\<open>getDomain\<close> (lines 307 to 319).\<close>

definition getDomain :: "'s env \<Rightarrow> string \<Rightarrow> string" where
  "getDomain env img =
     (case parseNormalizedNamedDomain env img of
        Inl err \<Rightarrow> []
      | Inr domain \<Rightarrow> (if domain = ''docker.io'' then ''index.docker.io'' else domain))"

text \<open>
  \<^verbatim>\<open>setSecrets\<close> (lines 145 to 164). The slice of secrets is \<^verbatim>\<open>nil\<close> (\<open>None\<close>) until
  something is appended to it.
\<close>

definition appendSecrets :: "LocalObjectReference list option \<Rightarrow> LocalObjectReference list \<Rightarrow> LocalObjectReference list option" where
  "appendSecrets slice secrets =
     (case slice of
        None \<Rightarrow> (if secrets = [] then None else Some secrets)
      | Some refs \<Rightarrow> Some (refs @ secrets))"

definition setSecrets :: "'s env \<Rightarrow> document \<Rightarrow> document" where
  "setSecrets env data =
     (if GetValueN data [''imagePullSecrets''] \<noteq> JNull then data
      else
        (let containers = GetSlice data [''containers'']
         in if length containers > 0 then
              (let imagePullSecrets0 =
                     (case mapIndex data ''imagePullSecrets'' of JSecrets refs \<Rightarrow> Some refs | _ \<Rightarrow> None);
                   domainToCreds = getCreds env (ToString (mapIndex data ''namespaceId''));
                   imagePullSecrets =
                     fold (\<lambda>container acc.
                             (let img = ToString (mapIndex container ''image'')
                              in if img \<noteq> [] then
                                   (case domainToCreds (getDomain env img) of
                                      None \<Rightarrow> acc
                                    | Some secrets \<Rightarrow> appendSecrets acc secrets)
                                 else acc))
                       containers imagePullSecrets0
               in (case imagePullSecrets of
                     None \<Rightarrow> data
                   | Some refs \<Rightarrow> PutValue data (JSecrets refs) [''imagePullSecrets'']))
            else data))"

text \<open>\<^verbatim>\<open>getNodeName\<close> (lines 277 to 284): the empty string when the lookup fails.\<close>

definition getNodeName :: "'s env \<Rightarrow> string \<Rightarrow> string" where
  "getNodeName env nodeID =
     (case nodeByID env nodeID of Inl err \<Rightarrow> [] | Inr node \<Rightarrow> NodeName node)"

text \<open>\<^verbatim>\<open>getState\<close> (lines 296 to 305); \<open>None\<close> is the \<^verbatim>\<open>nil\<close> map.\<close>

definition getState :: "'s env \<Rightarrow> document \<Rightarrow> (string \<times> string) list option" where
  "getState env data =
     (case GetValue data [''annotations'', ''workload.cattle.io/state''] of
        None \<Rightarrow> Some []
      | Some v \<Rightarrow> jsonUnmarshal env (ToString v))"

text \<open>\<^verbatim>\<open>setState\<close> (lines 286 to 294).\<close>

definition setState :: "'s env \<Rightarrow> document \<Rightarrow> (string \<times> string) list \<Rightarrow> document" where
  "setState env data stateMap =
     (case jsonMarshal env stateMap of
        Inl err \<Rightarrow> data
      | Inr content \<Rightarrow> PutValue data (JStr content) [''annotations'', ''workload.cattle.io/state''])"

text \<open>
  \<^verbatim>\<open>setScheduling\<close> (lines 92 to 102). The write of line 97 into a \<^verbatim>\<open>nil\<close> state map
  panics.
\<close>

definition setScheduling :: "'s env \<Rightarrow> document \<Rightarrow> document go" where
  "setScheduling env data =
     (let nodeID = ToString (GetValueN data [''scheduling'', ''node'', ''nodeId''])
      in if nodeID \<noteq> [] then
           (let nodeName = getNodeName env nodeID;
                data1 = PutValue data (JStr nodeName) [''scheduling'', ''node'', ''nodeId'']
            in (case getState env data1 of
                  None \<Rightarrow> Panic NilMapAssignment
                | Some state \<Rightarrow>
                    Ret (setState env data1 (AList.update (getKey env nodeName) nodeID state))))
         else Ret (PutValue data (JStr []) [''nodeId'']))"

section \<open>The store\<close>

text \<open>
  \<^verbatim>\<open>Create\<close> (lines 62 to 72). The result is what the call returns, an error or a
  document, and the storage state after the call.
\<close>

definition Create :: "'s env \<Rightarrow> string \<Rightarrow> document \<Rightarrow> 's \<Rightarrow> ((error + document) \<times> 's) go" where
  "Create env schemaID data s =
     (let data1 = setSelector env schemaID data;
          data2 = setWorkloadSpecificDefaults schemaID data1;
          data3 = setSecrets env data2
      in (case setPorts (ToString (mapIndex data3 ''name'')) data3 of
            Panic pn \<Rightarrow> Panic pn
          | Ret (data4, Some err) \<Rightarrow> Ret (Inl err, s)
          | Ret (data4, None) \<Rightarrow>
              (case setScheduling env data4 of
                 Panic pn \<Rightarrow> Panic pn
               | Ret data5 \<Rightarrow> Ret (storeCreate env schemaID (setStrategy data5) s))))"

text \<open>
  \<^verbatim>\<open>Update\<close> (lines 74 to 82). The index \<^verbatim>\<open>splitted[1]\<close> is not checked: it panics
  when the split has one segment.
\<close>

definition Update :: "'s env \<Rightarrow> string \<Rightarrow> document \<Rightarrow> string \<Rightarrow> 's \<Rightarrow> ((error + document) \<times> 's) go" where
  "Update env schemaID data ident s =
     (let splitted = Split ident (CHR '':'')
      in if length splitted \<le> 1 then Panic IndexOutOfRange
         else (case setPorts (splitted ! 1) data of
                 Panic pn \<Rightarrow> Panic pn
               | Ret (data1, Some err) \<Rightarrow> Ret (Inl err, s)
               | Ret (data1, None) \<Rightarrow>
                   (case setScheduling env data1 of
                      Panic pn \<Rightarrow> Panic pn
                    | Ret data2 \<Rightarrow> Ret (storeUpdate env schemaID (setStrategy data2) ident s))))"

text \<open>
  Modelled from the spec: \<^verbatim>\<open>splitTypeAndID\<close> is a helper of the package in a file that
  is not among the sources. The specification describes the identifier as
  \<^verbatim>\<open><type>:<shortId>\<close> "or more segments", reduces it to "its trailing short identifier",
  and gives the example that \<^verbatim>\<open>deployment:web:extra\<close> is read as \<^verbatim>\<open>web\<close>: the type is the
  first segment and the short identifier the segment after it.
\<close>

definition splitTypeAndID :: "string \<Rightarrow> string \<times> string" where
  "splitTypeAndID ident =
     (case Split ident (CHR '':'') of
        typ # shortID # rest \<Rightarrow> (typ, shortID)
      | _ \<Rightarrow> ([], []))"

text \<open>\<^verbatim>\<open>ByID\<close> (lines 84 to 90).\<close>

definition ByID :: "'s env \<Rightarrow> string \<Rightarrow> string \<Rightarrow> 's \<Rightarrow> (error + document) \<times> 's" where
  "ByID env schemaID ident s =
     (let shortID = (if Count ident (CHR '':'') > 1 then snd (splitTypeAndID ident) else ident)
      in storeByID env schemaID shortID s)"

section \<open>Notions of the specification and examples\<close>

text \<open>
  The digit that the specification gives a kind: \<^verbatim>\<open>NodePort\<close> 1, \<^verbatim>\<open>ClusterIP\<close> 2,
  \<^verbatim>\<open>LoadBalancer\<close> 3, anything else 0.
\<close>

definition kindDigit :: "string \<Rightarrow> string" where
  "kindDigit kind =
     (if kind = ''NodePort'' then ''1''
      else if kind = ''ClusterIP'' then ''2''
      else if kind = ''LoadBalancer'' then ''3''
      else ''0'')"

text \<open>
  The protocols of a container port in Kubernetes (\<^verbatim>\<open>corev1.ProtocolTCP\<close>,
  \<^verbatim>\<open>corev1.ProtocolUDP\<close>, \<^verbatim>\<open>corev1.ProtocolSCTP\<close>).
\<close>

definition knownProtocols :: "string list" where
  "knownProtocols = [''TCP'', ''UDP'', ''SCTP'']"




definition portLongest :: document where
  "portLongest =
     [(''containerPort'', JNum 65535), (''protocol'', JStr ''SCTP''),
      (''sourcePort'', JNum 65535), (''kind'', JStr ''LoadBalancer'')]"

definition portLongSource :: document where
  "portLongSource =
     [(''containerPort'', JNum 65535), (''protocol'', JStr ''SCTP''),
      (''sourcePort'', JNum 100000), (''kind'', JStr ''NodePort'')]"

definition portNegative :: document where
  "portNegative =
     [(''containerPort'', JNum (- 100000)), (''protocol'', JStr ''SCTP''),
      (''sourcePort'', JNum 65535), (''kind'', JStr ''NodePort'')]"

text \<open>
  Collaborators for the examples. The storage state is the list of the documents
  written so far. \<open>exampleMarshal\<close> renders a state map whose strings need no escape.
\<close>

definition exampleStore :: "(string \<times> RegistryCredential) list \<Rightarrow> domainToCreds \<Rightarrow> string \<Rightarrow> domainToCreds" where
  "exampleStore registries domainToCreds name =
     fold (\<lambda>registry d.
             d(registry \<mapsto> (case d registry of None \<Rightarrow> [] | Some refs \<Rightarrow> refs) @ [LocalObjectReference name]))
       (map fst registries) domainToCreds"

definition exampleMarshal :: "(string \<times> string) list \<Rightarrow> error + string" where
  "exampleMarshal stateMap =
     Inr (''{'' @ joinWith '','' (map (\<lambda>(k, v). [CHR 0x22] @ k @ [CHR 0x22] @ '':'' @ [CHR 0x22] @ v @ [CHR 0x22])
                                   (sort_key fst stateMap)) @ ''}'')"

definition exampleEnv :: "document list env" where
  "exampleEnv =
     \<lparr> resolveWorkloadID =
         (\<lambda>schemaID data. schemaID @ ''-'' @ ToString (mapIndex data ''namespaceId'')
                             @ ''-'' @ ToString (mapIndex data ''name'')),
       SelectorLabel = ''workload.user.cattle.io/workloadselector'',
       store = exampleStore,
       getKey = (\<lambda>nodeName. nodeName),
       listNamespacedDockerCredential = Inr [],
       listDockerCredential = Inr [],
       nodeByID = (\<lambda>nodeID. if nodeID = ''c-1:m-1'' then Inr \<lparr>NodeName = ''worker-1''\<rparr>
                              else Inl (OtherError ''not found'')),
       parseNormalizedNamedDomain = (\<lambda>img. Inr ''docker.io''),
       jsonMarshal = exampleMarshal,
       jsonUnmarshal = (\<lambda>content. if content = ''null'' then None else Some []),
       storeCreate = (\<lambda>schemaID data s. (Inr data, s @ [data])),
       storeUpdate = (\<lambda>schemaID data ident s. (Inr data, s @ [data])),
       storeByID = (\<lambda>schemaID ident s. (Inr [(''id'', JStr ident)], s)) \<rparr>"

section \<open>Facts about the library functions\<close>


lemma ToString_JStr [simp]: "ToString (JStr s) = s"
  by (simp add: ToString_def Singular_def)

lemma ToString_JNum: "ToString (JNum n) = Itoa n"
  by (simp add: ToString_def Singular_def)

lemma ToNumber_JNum [simp]: "ToNumber (JNum n) = (n, False)"
  by (simp add: ToNumber_def Singular_def)

lemma length_ToLower [simp]: "length (ToLower s) = length s"
  by (simp add: ToLower_def)

lemma length_digitsOf: "0 < k \<Longrightarrow> n < 10 ^ k \<Longrightarrow> length (digitsOf n) \<le> k"
proof (induction k arbitrary: n)
  case 0
  then show ?case by simp
next
  case (Suc k)
  show ?case
  proof (cases "n < 10")
    case True
    then show ?thesis by (simp add: digitsOf.simps)
  next
    case False
    then have k: "0 < k" using Suc.prems by (cases k) auto
    have "n div 10 < 10 ^ k" using Suc.prems by (simp add: less_mult_imp_div_less mult.commute)
    from Suc.IH [OF k this] False show ?thesis
      by (subst digitsOf.simps) simp
  qed
qed

lemma length_Split: "length (Split s sep) = Suc (Count s sep)"
  by (induction s) (auto simp: Count_def split: list.splits)

lemma Count_zero_iff: "Count s sep = 0 \<longleftrightarrow> sep \<notin> set s"
  by (induction s) (auto simp: Count_def)

text \<open>Unfolding these evaluates the model on a concrete document.\<close>

lemmas string_eval =
  Itoa_def digitsOf.simps ToLower_def toLowerChar_def upperLetters_def lowerLetters_def
  ParseInt_def isDigit_def digitsVal_def digitVal_def upt_rec EqualFold_def HasPrefix_def
  Count_def

lemmas convert_eval =
  mapIndex_def ToString_def ToNumber_def Singular_def IsEmpty_def ToInterfaceSlice_def
  ToMapInterface_def ToMapSlice_def EncodeToMap_def GetValueN_def GetSlice_def

lemmas ports_eval =
  generateDNSName_def numKind_def portNameOf_def duplicatedPort_def NewAPIError_def
  setDNSName_def writePort_def keep_def setPorts_def

section \<open>The name and the DNS name of one port\<close>

lemma numKind_digit:
  "ToLower (ToString (JNum (numKind port))) = kindDigit (ToString (mapIndex port ''kind''))"
  by (simp add: ToString_JNum numKind_def kindDigit_def Let_def Itoa_def digitsOf.simps
      ToLower_def toLowerChar_def upperLetters_def lowerLetters_def)









text \<open>
  C6, as the code has it. A generated name has at most 15 characters when the
  container port is a number from 0 to 65535, the protocol is a known one and the source
  port is rendered in at most five characters (as it is when it is unset or a number
  from 0 to 65535), whatever the kind.
\<close>

theorem C6_name_length:
  assumes "IsEmpty (mapIndex port ''name'')"
    and "mapIndex port ''containerPort'' = JNum n" and "0 \<le> n" and "n < 65536"
    and "mapIndex port ''protocol'' = JStr p" and "p \<in> set knownProtocols"
    and "length (ToString (mapIndex port ''sourcePort'')) \<le> 5"
  shows "length (portNameOf port) \<le> 15"
proof -
  have "nat n < 10 ^ 5" using assms(3,4) by simp
  then have a: "length (Itoa n) \<le> 5"
    using assms(3) length_digitsOf [of 5 "nat n"] by (simp add: Itoa_def)
  have b: "length p \<le> 4" using assms(6) by (auto simp: knownProtocols_def)
  have c: "length (kindDigit (ToString (mapIndex port ''kind''))) = 1"
    by (simp add: kindDigit_def)
  show ?thesis
    using a b c assms(1,2,5,7) by (simp add: portNameOf_def numKind_digit)
qed

theorem C6_name_length_witness:
  "IsEmpty (mapIndex portLongest ''name'')
   \<and> mapIndex portLongest ''containerPort'' = JNum 65535 \<and> (0::int) \<le> 65535 \<and> (65535::int) < 65536
   \<and> mapIndex portLongest ''protocol'' = JStr ''SCTP'' \<and> ''SCTP'' \<in> set knownProtocols
   \<and> length (ToString (mapIndex portLongest ''sourcePort'')) \<le> 5
   \<and> length (portNameOf portLongest) \<le> 15"
proof -
  have 1: "IsEmpty (mapIndex portLongest ''name'')"
    and 2: "mapIndex portLongest ''containerPort'' = JNum 65535"
    and 5: "mapIndex portLongest ''protocol'' = JStr ''SCTP''"
    and 7: "length (ToString (mapIndex portLongest ''sourcePort'')) \<le> 5"
    by (simp_all add: portLongest_def string_eval convert_eval)
  have 6: "''SCTP'' \<in> set knownProtocols" by (simp add: knownProtocols_def)
  show ?thesis
    using 1 2 5 6 7 C6_name_length [OF 1 2 _ _ 5 6 7] by simp
qed

text \<open>
  The claim C6 as the specification words it fails: with a container port below 65536, a
  known protocol and a known kind, a source port of six digits gives a name of 16
  characters, and so does a container port below zero with a source port of five digits.
\<close>

theorem C6_counterexample:
  "IsEmpty (mapIndex portLongSource ''name'')
   \<and> mapIndex portLongSource ''containerPort'' = JNum 65535 \<and> (65535::int) < 65536
   \<and> mapIndex portLongSource ''protocol'' = JStr ''SCTP''
   \<and> mapIndex portLongSource ''kind'' = JStr ''NodePort''
   \<and> portNameOf portLongSource = ''65535sctp1000001''
   \<and> \<not> length (portNameOf portLongSource) \<le> 15
   \<and> IsEmpty (mapIndex portNegative ''name'')
   \<and> mapIndex portNegative ''containerPort'' = JNum (- 100000) \<and> (- 100000::int) < 65536
   \<and> mapIndex portNegative ''protocol'' = JStr ''SCTP''
   \<and> mapIndex portNegative ''kind'' = JStr ''NodePort''
   \<and> portNameOf portNegative = ''-100000sctp655351''
   \<and> \<not> length (portNameOf portNegative) \<le> 15"
  by (simp add: portLongSource_def portNegative_def ports_eval string_eval convert_eval)

section \<open>Panics\<close>

lemma portsLoop_panic: "portsLoop workloadName usedNames ps = Panic pn \<Longrightarrow> pn = NilMapAssignment"
  by (induction ps arbitrary: usedNames)
     (auto simp: keep_def split: encoded.splits if_splits go.splits)

lemma containersLoop_panic: "containersLoop workloadName cs = Panic pn \<Longrightarrow> pn = NilMapAssignment"
  by (induction cs)
     (auto simp: keep_def Let_def dest: portsLoop_panic
           split: encoded.splits if_splits go.splits option.splits prod.splits)

lemma setPorts_panic: "setPorts workloadName data = Panic pn \<Longrightarrow> pn = NilMapAssignment"
  by (auto simp: setPorts_def dest: containersLoop_panic split: option.splits go.splits prod.splits)

lemma setScheduling_panic: "setScheduling env data = Panic pn \<Longrightarrow> pn = NilMapAssignment"
  by (auto simp: setScheduling_def Let_def split: option.splits if_splits)

section \<open>Identifiers\<close>

lemma Split_second:
  assumes "1 < Count ident sep"
  shows "snd (splitTypeAndID ident) = Split ident (CHR '':'') ! 1 \<or> sep \<noteq> CHR '':''"
proof (cases "sep = CHR '':''")
  case True
  with assms have "2 \<le> length (Split ident (CHR '':''))" by (simp add: length_Split)
  then obtain ty shortID rest where "Split ident (CHR '':'') = ty # shortID # rest"
    by (cases "Split ident (CHR '':'')"; simp; rename_tac a as; case_tac as; simp)
  then show ?thesis by (simp add: splitTypeAndID_def)
next
  case False
  then show ?thesis by simp
qed

text \<open>
  C8. \<^verbatim>\<open>ByID\<close> reads the storage with the short identifier, the second segment, when
  the identifier has more than one colon, and with the identifier as it is when it has
  one colon or none; \<^verbatim>\<open>deployment:web:extra\<close> is read as \<^verbatim>\<open>web\<close>.
\<close>

theorem C8_by_id:
  "(1 < Count ident (CHR '':'') \<longrightarrow>
      ByID env schemaID ident s = storeByID env schemaID (Split ident (CHR '':'') ! 1) s)
   \<and> (Count ident (CHR '':'') \<le> 1 \<longrightarrow>
      ByID env schemaID ident s = storeByID env schemaID ident s)
   \<and> ByID env schemaID ''deployment:web:extra'' s = storeByID env schemaID ''web'' s"
  using Split_second [of ident "CHR '':''"]
  by (simp add: ByID_def splitTypeAndID_def Count_def)

theorem C8_by_id_witness:
  "1 < Count ''deployment:web:extra'' (CHR '':'')
   \<and> ByID exampleEnv ''workload'' ''deployment:web:extra'' [] = (Inr [(''id'', JStr ''web'')], [])
   \<and> Count ''default:web'' (CHR '':'') \<le> 1
   \<and> ByID exampleEnv ''workload'' ''default:web'' [] = (Inr [(''id'', JStr ''default:web'')], [])"
  using C8_by_id [of "''deployment:web:extra''" exampleEnv "''workload''" "[]"]
    C8_by_id [of "''default:web''" exampleEnv "''workload''" "[]"]
  by (simp add: Count_def exampleEnv_def)

text \<open>
  C9. \<^verbatim>\<open>Update\<close> takes the second segment of the identifier without checking that
  there is one: the call panics with an index out of range exactly when the identifier
  has no colon.
\<close>

theorem C9_update_index:
  "Update env schemaID data ident s = Panic IndexOutOfRange \<longleftrightarrow> CHR '':'' \<notin> set ident"
proof
  assume "CHR '':'' \<notin> set ident"
  then have "length (Split ident (CHR '':'')) = 1"
    by (simp add: length_Split Count_zero_iff)
  then show "Update env schemaID data ident s = Panic IndexOutOfRange"
    by (simp add: Update_def)
next
  assume p: "Update env schemaID data ident s = Panic IndexOutOfRange"
  show "CHR '':'' \<notin> set ident"
  proof (rule ccontr)
    assume "\<not> CHR '':'' \<notin> set ident"
    then have "Count ident (CHR '':'') \<noteq> 0" by (simp add: Count_zero_iff)
    then have "\<not> length (Split ident (CHR '':'')) \<le> 1" by (simp add: length_Split)
    with p show False
      by (auto simp: Update_def Let_def dest: setPorts_panic setScheduling_panic
               split: go.splits prod.splits option.splits)
  qed
qed

theorem C9_update_index_witness:
  "CHR '':'' \<notin> set ''web''
   \<and> Update exampleEnv ''deployment'' [(''name'', JStr ''web'')] ''web'' [] = Panic IndexOutOfRange
   \<and> \<not> CHR '':'' \<notin> set ''default:web''
   \<and> Update exampleEnv ''deployment'' [(''name'', JStr ''web'')] ''default:web'' [] \<noteq> Panic IndexOutOfRange"
  using C9_update_index [of exampleEnv "''deployment''" "[(''name'', JStr ''web'')]" "''web''" "[]"]
    C9_update_index [of exampleEnv "''deployment''" "[(''name'', JStr ''web'')]" "''default:web''" "[]"]
  by simp

end
